theory Spec2Isabelle
  imports Main
begin

section \<open>Errors\<close>

text \<open>
  Go functions return an \<^verbatim>\<open>error\<close> next to their result. Package \<^verbatim>\<open>kes\<close> is not
  among the sources: its two sentinel errors used by the in-memory store are constructors
  here, \<^verbatim>\<open>kes.NewError(code, msg)\<close> is \<open>NewError code msg\<close>, and \<open>Failure msg\<close> stands
  for an error value without an HTTP status. A \<^verbatim>\<open>nil\<close> error is \<open>None\<close>.
\<close>

datatype error = ErrKeyExists | ErrKeyNotFound | NewError nat string | Failure string

section \<open>The in-memory key store (package mem)\<close>

subsection \<open>Go maps\<close>

text \<open>
  A Go map value is either \<^verbatim>\<open>nil\<close> (\<open>None\<close>) or a table. Reading a nil map finds
  nothing, \<^verbatim>\<open>delete\<close> on a nil map does nothing, assigning to an entry of a nil map
  panics (\<open>None\<close> as the result of \<open>go_assign\<close>).
\<close>

type_synonym ('a, 'b) gomap = "('a \<rightharpoonup> 'b) option"

definition go_lookup :: "('a, 'b) gomap \<Rightarrow> 'a \<Rightarrow> 'b option" where
  "go_lookup m a = (case m of None \<Rightarrow> None | Some f \<Rightarrow> f a)"

definition go_assign :: "('a, 'b) gomap \<Rightarrow> 'a \<Rightarrow> 'b \<Rightarrow> ('a, 'b) gomap option" where
  "go_assign m a b = (case m of None \<Rightarrow> None | Some f \<Rightarrow> Some (Some (f(a \<mapsto> b))))"

definition go_delete :: "('a, 'b) gomap \<Rightarrow> 'a \<Rightarrow> ('a, 'b) gomap" where
  "go_delete m a = (case m of None \<Rightarrow> None | Some f \<Rightarrow> Some (f(a := None)))"

definition go_keys :: "('a, 'b) gomap \<Rightarrow> 'a set" where
  "go_keys m = (case m of None \<Rightarrow> {} | Some f \<Rightarrow> dom f)"

text \<open>
  \<^verbatim>\<open>for name := range m\<close> visits every key once, in an order Go leaves open. The order
  is an argument of the model: \<open>range_order m ord\<close> says that \<open>ord\<close> is one the loop may take.
\<close>

definition range_order :: "('a, 'b) gomap \<Rightarrow> 'a list \<Rightarrow> bool" where
  "range_order m ord = (distinct ord \<and> set ord = go_keys m)"

subsection \<open>Store\<close>

text \<open>
  The struct \<^verbatim>\<open>Store\<close>: the map of keys under their names. Every method takes the
  struct's lock for its whole body, so the methods run one after the other; the lock has no
  field here. The type of keys (\<^verbatim>\<open>key.Key\<close>) is left open.
\<close>

record 'k Store =
  store :: "(string, 'k) gomap"

definition zero_Store :: "'k Store" where
  "zero_Store = \<lparr>store = None\<rparr>"

datatype store_state = StoreAvailable | StoreUnreachable

record StoreState =
  State :: store_state
  Latency :: int

definition Status :: "'k Store \<Rightarrow> StoreState \<times> error option" where
  "Status s = (\<lparr>State = StoreAvailable, Latency = 0\<rparr>, None)"

text \<open>
  \<open>Create\<close> returns the store after the call and the error; \<open>None\<close> is a panic.
\<close>

definition Create :: "'k Store \<Rightarrow> string \<Rightarrow> 'k \<Rightarrow> ('k Store \<times> error option) option" where
  "Create s name k =
     (let s1 = (if store s = None then s\<lparr>store := Some Map.empty\<rparr> else s) in
      case go_lookup (store s1) name of
        Some _ \<Rightarrow> Some (s1, Some ErrKeyExists)
      | None \<Rightarrow>
          (case go_assign (store s1) name k of
             None \<Rightarrow> None
           | Some m \<Rightarrow> Some (s1\<lparr>store := m\<rparr>, None)))"

definition Delete :: "'k Store \<Rightarrow> string \<Rightarrow> 'k Store \<times> error option" where
  "Delete s name = (s\<lparr>store := go_delete (store s) name\<rparr>, None)"

definition Get :: "'k Store \<Rightarrow> string \<Rightarrow> error + 'k" where
  "Get s name =
     (case go_lookup (store s) name of
        None \<Rightarrow> Inl ErrKeyNotFound
      | Some k \<Rightarrow> Inr k)"

subsection \<open>List and its iterator\<close>

record iterator =
  it_values :: "string list"
  it_last :: string

text \<open>The loop of \<^verbatim>\<open>List\<close>: \<^verbatim>\<open>names = append(names, name)\<close> for every name visited.\<close>

fun append_names :: "string list \<Rightarrow> string list \<Rightarrow> string list" where
  "append_names names [] = names"
| "append_names names (name # rest) = append_names (names @ [name]) rest"

definition List_keys :: "'k Store \<Rightarrow> string list \<Rightarrow> iterator \<times> error option" where
  "List_keys s ord = (\<lparr>it_values = append_names [] ord, it_last = []\<rparr>, None)"

definition Next :: "iterator \<Rightarrow> bool \<times> iterator" where
  "Next i =
     (if length (it_values i) > 0
      then (True, i\<lparr>it_last := it_values i ! 0, it_values := drop 1 (it_values i)\<rparr>)
      else (False, i))"

definition Name :: "iterator \<Rightarrow> string" where
  "Name i = it_last i"

definition Err :: "iterator \<Rightarrow> error option" where
  "Err i = None"

text \<open>
  A caller's loop \<^verbatim>\<open>for it.Next() { names = append(names, it.Name()) }\<close>: the names an
  iterator yields until \<open>Next\<close> returns false, and the iterator left behind.
\<close>

function drain :: "iterator \<Rightarrow> string list \<Rightarrow> string list \<times> iterator" where
  "drain i acc =
     (if fst (Next i) then drain (snd (Next i)) (acc @ [Name (snd (Next i))])
      else (acc, snd (Next i)))"
  by pat_completeness auto
termination
  by (relation "measure (\<lambda>(i, acc). length (it_values i))") (auto simp: Next_def)

subsection \<open>Sequences of calls\<close>

text \<open>
  One call of a method of the store, and a sequence of calls run from a store: the store
  after the sequence and the error each call returned. \<open>OpList ord\<close> carries the order its
  \<^verbatim>\<open>range\<close> loop takes.
\<close>

datatype 'k op = OpStatus | OpCreate string 'k | OpDelete string | OpGet string | OpList "string list"

fun exec :: "'k Store \<Rightarrow> 'k op \<Rightarrow> ('k Store \<times> error option) option" where
  "exec s OpStatus = Some (s, snd (Status s))"
| "exec s (OpCreate name k) = Create s name k"
| "exec s (OpDelete name) = Some (Delete s name)"
| "exec s (OpGet name) = Some (s, case Get s name of Inl e \<Rightarrow> Some e | Inr k \<Rightarrow> None)"
| "exec s (OpList ord) = Some (s, snd (List_keys s ord))"

fun run :: "'k Store \<Rightarrow> 'k op list \<Rightarrow> ('k Store \<times> error option list) option" where
  "run s [] = Some (s, [])"
| "run s (p # ps) =
     (case exec s p of
        None \<Rightarrow> None
      | Some (s', e) \<Rightarrow>
          (case run s' ps of
             None \<Rightarrow> None
           | Some (s'', es) \<Rightarrow> Some (s'', e # es)))"

text \<open>
  The specification's reading of a history (the calls with the errors they returned, the
  most recent first): the key of the most recent \<open>Create\<close> of the name that returned no
  error, unless a \<open>Delete\<close> of the name came after it.
\<close>

fun most_recent_create :: "string \<Rightarrow> ('k op \<times> error option) list \<Rightarrow> 'k option" where
  "most_recent_create name [] = None"
| "most_recent_create name ((OpCreate n k, None) # h) =
     (if n = name then Some k else most_recent_create name h)"
| "most_recent_create name ((OpDelete n, e) # h) =
     (if n = name then None else most_recent_create name h)"
| "most_recent_create name (c # h) = most_recent_create name h"

text \<open>
  Calls on the store interleaved with calls of \<open>Next\<close> on an iterator: the names the
  successful \<open>Next\<close> calls yield, read with \<open>Name\<close>.
\<close>

datatype 'k action = ACreate string 'k | ADelete string | ANext

fun play :: "'k Store \<Rightarrow> iterator \<Rightarrow> 'k action list \<Rightarrow> string list" where
  "play s i [] = []"
| "play s i (ACreate n k # acts) =
     (case Create s n k of None \<Rightarrow> [] | Some (s', e) \<Rightarrow> play s' i acts)"
| "play s i (ADelete n # acts) = play (fst (Delete s n)) i acts"
| "play s i (ANext # acts) =
     (if fst (Next i) then Name (snd (Next i)) # play s (snd (Next i)) acts
      else play s (snd (Next i)) acts)"

fun nexts :: "'k action list \<Rightarrow> nat" where
  "nexts [] = 0"
| "nexts (ANext # acts) = Suc (nexts acts)"
| "nexts (a # acts) = nexts acts"


section \<open>The policy API (package http, policy-api.go)\<close>

subsection \<open>Requests, collaborators and what a handler does\<close>

text \<open>
  A request as the handlers read it: the method, \<^verbatim>\<open>r.URL.Path\<close>, the body, the identity
  that \<^verbatim>\<open>auth.Identify\<close> reads off the request (the TLS peer's, until a middleware
  replaces it) and the identity of the certificate a TLS proxy forwards in its header
  (\<open>None\<close>: no parsable certificate there).
\<close>

type_synonym identity = string

record request =
  r_Method :: string
  r_Path :: string
  r_Body :: string
  r_Identity :: identity
  r_Forwarded :: "identity option"

record Policy =
  p_Allow :: "string list"
  p_Deny :: "string list"
  p_CreatedAt :: int
  p_CreatedBy :: identity

text \<open>The struct \<^verbatim>\<open>Response\<close> of \<^verbatim>\<open>listPolicy\<close>; a time is a number.\<close>

record list_Response =
  resp_Name :: string
  resp_CreatedAt :: int
  resp_CreatedBy :: identity
  resp_Err :: string

text \<open>
  The functions and values the handlers use that are declared outside policy-api.go are
  the fields of one record, an argument of every handler: \<open>normalizeURL\<close> returns the
  path it leaves in \<^verbatim>\<open>r.URL\<close>; \<open>Decode_Request n b\<close> is \<^verbatim>\<open>json.NewDecoder(r.Body).Decode(&req)\<close>
  on the body \<open>b\<close> read through \<^verbatim>\<open>http.MaxBytesReader\<close> with limit \<open>n\<close>, giving the
  identity of the decoded \<^verbatim>\<open>Request\<close>; \<open>ListPolicies\<close> gives the names its iterator
  yields (finitely many) and the error of the iterator's \<^verbatim>\<open>Close\<close>; \<open>Match\<close> is the boolean of
  \<^verbatim>\<open>path.Match\<close>; \<open>EncodeErr n v\<close> is the error of \<^verbatim>\<open>encoder.Encode(v)\<close> when \<open>n\<close>
  values were encoded before; \<open>err_Error\<close> is \<^verbatim>\<open>err.Error()\<close>. The type \<open>'e\<close> is the
  enclave's.
\<close>

record 'e deps =
  errMethodNotAllowed :: error
  normalizeURL :: "string \<Rightarrow> string \<Rightarrow> error + string"
  lookupEnclave :: "request \<Rightarrow> error + 'e"
  VerifyRequest :: "'e \<Rightarrow> request \<Rightarrow> error option"
  validateName :: "string \<Rightarrow> error option"
  validatePattern :: "string \<Rightarrow> error option"
  TrimSpace :: "string \<Rightarrow> string"
  Decode_Request :: "nat \<Rightarrow> string \<Rightarrow> error + identity"
  IsUnknown :: "identity \<Rightarrow> bool"
  Identify :: "request \<Rightarrow> identity"
  AssignPolicy :: "'e \<Rightarrow> string \<Rightarrow> identity \<Rightarrow> error option"
  ListPolicies :: "'e \<Rightarrow> error + (string list \<times> error option)"
  GetPolicy :: "'e \<Rightarrow> string \<Rightarrow> error + Policy"
  Match :: "string \<Rightarrow> string \<Rightarrow> bool"
  EncodeErr :: "nat \<Rightarrow> list_Response \<Rightarrow> error option"
  err_Error :: "error \<Rightarrow> string"

text \<open>
  What a handler does, in order: the headers it sets, the error it sends with
  \<^verbatim>\<open>Error(w, err)\<close>, the status it writes, the values it encodes to the response (\<open>Encode\<close>
  when the write succeeds, \<open>Encode_failed\<close> when it does not), and its calls of
  \<^verbatim>\<open>enclave.AssignPolicy\<close>. The audit wrapper around the response writer is left out.
\<close>

datatype event =
    SetHeader string string
  | Error error
  | WriteHeader nat
  | Encode list_Response
  | Encode_failed list_Response
  | Call_AssignPolicy string identity

definition TrimPrefix :: "string \<Rightarrow> string \<Rightarrow> string" where
  "TrimPrefix s pre = (if take (length pre) s = pre then drop (length pre) s else s)"

subsection \<open>Routes\<close>

record API =
  Method :: string
  Path :: string
  MaxBody :: nat
  Timeout :: nat

definition Second :: nat where
  "Second = 1000000000"

text \<open>
  The handler a route registers at the mux: the route's own handler function inside the
  middleware calls written around it, outermost first.
\<close>

datatype chain =
    handler
  | timeout nat chain
  | proxy chain
  | Metrics_Count chain
  | Metrics_Latency chain

record registration =
  mux_pattern :: string
  mux_handler :: chain
  api :: API

definition describePolicy_API :: API where
  "describePolicy_API =
     \<lparr>Method = ''GET'', Path = ''/v1/policy/describe/'', MaxBody = 0, Timeout = 15 * Second\<rparr>"

definition describePolicy :: registration where
  "describePolicy =
     \<lparr>mux_pattern = Path describePolicy_API,
      mux_handler = timeout (Timeout describePolicy_API) (Metrics_Count (Metrics_Latency handler)),
      api = describePolicy_API\<rparr>"

definition assignPolicy_API :: API where
  "assignPolicy_API =
     \<lparr>Method = ''POST'', Path = ''/v1/policy/assign/'', MaxBody = 1024, Timeout = 15 * Second\<rparr>"

definition assignPolicy :: registration where
  "assignPolicy =
     \<lparr>mux_pattern = Path assignPolicy_API,
      mux_handler =
        timeout (Timeout assignPolicy_API) (proxy (Metrics_Count (Metrics_Latency handler))),
      api = assignPolicy_API\<rparr>"

definition readPolicy_API :: API where
  "readPolicy_API =
     \<lparr>Method = ''GET'', Path = ''/v1/policy/read/'', MaxBody = 0, Timeout = 15 * Second\<rparr>"

definition readPolicy :: registration where
  "readPolicy =
     \<lparr>mux_pattern = Path readPolicy_API,
      mux_handler =
        timeout (Timeout readPolicy_API) (proxy (Metrics_Count (Metrics_Latency handler))),
      api = readPolicy_API\<rparr>"

definition writePolicy_API :: API where
  "writePolicy_API =
     \<lparr>Method = ''POST'', Path = ''/v1/policy/write/'', MaxBody = 2 ^ 20, Timeout = 15 * Second\<rparr>"

definition writePolicy :: registration where
  "writePolicy =
     \<lparr>mux_pattern = Path writePolicy_API,
      mux_handler =
        timeout (Timeout writePolicy_API) (proxy (Metrics_Count (Metrics_Latency handler))),
      api = writePolicy_API\<rparr>"

definition deletePolicy_API :: API where
  "deletePolicy_API =
     \<lparr>Method = ''DELETE'', Path = ''/v1/policy/delete/'', MaxBody = 0, Timeout = 15 * Second\<rparr>"

definition deletePolicy :: registration where
  "deletePolicy =
     \<lparr>mux_pattern = Path deletePolicy_API,
      mux_handler =
        timeout (Timeout deletePolicy_API) (proxy (Metrics_Count (Metrics_Latency handler))),
      api = deletePolicy_API\<rparr>"

definition listPolicy_API :: API where
  "listPolicy_API =
     \<lparr>Method = ''GET'', Path = ''/v1/policy/list/'', MaxBody = 0, Timeout = 15 * Second\<rparr>"

definition listPolicy :: registration where
  "listPolicy =
     \<lparr>mux_pattern = Path listPolicy_API,
      mux_handler =
        timeout (Timeout listPolicy_API) (proxy (Metrics_Count (Metrics_Latency handler))),
      api = listPolicy_API\<rparr>"

definition policy_routes :: "registration list" where
  "policy_routes = [describePolicy, assignPolicy, readPolicy, writePolicy, deletePolicy, listPolicy]"

fun unwraps :: "chain \<Rightarrow> bool" where
  "unwraps handler = False"
| "unwraps (timeout t c) = unwraps c"
| "unwraps (proxy c) = True"
| "unwraps (Metrics_Count c) = unwraps c"
| "unwraps (Metrics_Latency c) = unwraps c"

text \<open>
  Modelled from the spec: the middleware \<^verbatim>\<open>proxy\<close>, whose function is not among the
  sources. If the TLS peer identity is in the proxy set, the effective identity is replaced
  by the identity of the certificate in the header; a malformed value is answered with 400.
  The other middleware pass the request on. \<open>handler_request ps c r\<close> is the request as the
  route's handler function receives it.
\<close>

fun handler_request :: "identity set \<Rightarrow> chain \<Rightarrow> request \<Rightarrow> error + request" where
  "handler_request ps handler r = Inr r"
| "handler_request ps (timeout t c) r = handler_request ps c r"
| "handler_request ps (proxy c) r =
     (if r_Identity r \<in> ps
      then (case r_Forwarded r of
              None \<Rightarrow> Inl (NewError 400 ''invalid forwarded certificate'')
            | Some i \<Rightarrow> handler_request ps c (r\<lparr>r_Identity := i\<rparr>))
      else handler_request ps c r)"
| "handler_request ps (Metrics_Count c) r = handler_request ps c r"
| "handler_request ps (Metrics_Latency c) r = handler_request ps c r"

subsection \<open>The handler of assignPolicy\<close>

definition assignPolicy_handler :: "'e deps \<Rightarrow> request \<Rightarrow> event list" where
  "assignPolicy_handler d r0 =
     (if r_Method r0 \<noteq> Method assignPolicy_API
      then [SetHeader ''Accept'' (Method assignPolicy_API), Error (errMethodNotAllowed d)]
      else
        case normalizeURL d (r_Path r0) (Path assignPolicy_API) of
          Inl err \<Rightarrow> [Error err]
        | Inr p \<Rightarrow>
            (let r = r0\<lparr>r_Path := p\<rparr> in
             case lookupEnclave d r of
               Inl err \<Rightarrow> [Error err]
             | Inr enclave \<Rightarrow>
                 (case VerifyRequest d enclave r of
                    Some err \<Rightarrow> [Error err]
                  | None \<Rightarrow>
                      (let name = TrimSpace d (TrimPrefix (r_Path r) (Path assignPolicy_API)) in
                       case validateName d name of
                         Some err \<Rightarrow> [Error err]
                       | None \<Rightarrow>
                           (case Decode_Request d (MaxBody assignPolicy_API) (r_Body r) of
                              Inl err \<Rightarrow> [Error err]
                            | Inr ident \<Rightarrow>
                                if IsUnknown d ident
                                then [Error (NewError 400 ''identity is unknown'')]
                                else if Identify d r = ident
                                then [Error (NewError 403 ''identity cannot assign policy to itself'')]
                                else
                                  (case AssignPolicy d enclave name ident of
                                     Some err \<Rightarrow> [Call_AssignPolicy name ident, Error err]
                                   | None \<Rightarrow> [Call_AssignPolicy name ident, WriteHeader 200]))))))"

subsection \<open>The handler of listPolicy\<close>

definition encode :: "'e deps \<Rightarrow> nat \<Rightarrow> list_Response \<Rightarrow> event" where
  "encode d n v = (if EncodeErr d n v = None then Encode v else Encode_failed v)"

definition item :: "string \<Rightarrow> Policy \<Rightarrow> list_Response" where
  "item name policy =
     \<lparr>resp_Name = name, resp_CreatedAt = p_CreatedAt policy,
      resp_CreatedBy = p_CreatedBy policy, resp_Err = []\<rparr>"

definition error_item :: "'e deps \<Rightarrow> error \<Rightarrow> list_Response" where
  "error_item d err =
     \<lparr>resp_Name = [], resp_CreatedAt = 0, resp_CreatedBy = [], resp_Err = err_Error d err\<rparr>"

text \<open>
  The loop \<^verbatim>\<open>for iterator.Next()\<close> over the names still to come, with the number of
  values encoded so far and \<^verbatim>\<open>hasWritten\<close>. It gives what the loop does and how it ends:
  \<open>None\<close> when the handler returns from inside the loop, otherwise the two variables at the
  end of the iteration.
\<close>

fun list_loop ::
  "'e deps \<Rightarrow> 'e \<Rightarrow> string \<Rightarrow> string list \<Rightarrow> nat \<Rightarrow> bool \<Rightarrow> event list \<times> (nat \<times> bool) option" where
  "list_loop d enclave pattern [] n hasWritten = ([], Some (n, hasWritten))"
| "list_loop d enclave pattern (name # rest) n hasWritten =
     (if \<not> Match d pattern name then list_loop d enclave pattern rest n hasWritten
      else
        case GetPolicy d enclave name of
          Inl err \<Rightarrow> ([encode d n (error_item d err)], None)
        | Inr policy \<Rightarrow>
            (case EncodeErr d n (item name policy) of
               Some err \<Rightarrow> ([Encode_failed (item name policy)], None)
             | None \<Rightarrow>
                 (Encode (item name policy) # fst (list_loop d enclave pattern rest (Suc n) True),
                  snd (list_loop d enclave pattern rest (Suc n) True))))"

definition listPolicy_handler :: "'e deps \<Rightarrow> request \<Rightarrow> event list" where
  "listPolicy_handler d r0 =
     (if r_Method r0 \<noteq> Method listPolicy_API
      then [SetHeader ''Accept'' (Method listPolicy_API), Error (errMethodNotAllowed d)]
      else
        case normalizeURL d (r_Path r0) (Path listPolicy_API) of
          Inl err \<Rightarrow> [Error err]
        | Inr p \<Rightarrow>
            (let r = r0\<lparr>r_Path := p\<rparr> in
             case lookupEnclave d r of
               Inl err \<Rightarrow> [Error err]
             | Inr enclave \<Rightarrow>
                 (case VerifyRequest d enclave r of
                    Some err \<Rightarrow> [Error err]
                  | None \<Rightarrow>
                      (let pattern = TrimSpace d (TrimPrefix (r_Path r) (Path listPolicy_API)) in
                       case validatePattern d pattern of
                         Some err \<Rightarrow> [Error err]
                       | None \<Rightarrow>
                           (case ListPolicies d enclave of
                              Inl err \<Rightarrow> [Error err]
                            | Inr (names, close_err) \<Rightarrow>
                                SetHeader ''Content-Type'' ''application/x-ndjson'' #
                                (case list_loop d enclave pattern names 0 False of
                                   (evs, None) \<Rightarrow> evs
                                 | (evs, Some (n, hasWritten)) \<Rightarrow>
                                     (case close_err of
                                        Some err \<Rightarrow> evs @ [encode d n (error_item d err)]
                                      | None \<Rightarrow>
                                          if \<not> hasWritten then evs @ [WriteHeader 200]
                                          else evs)))))))"

text \<open>The values a handler has written to the response with the encoder.\<close>

fun emitted :: "event list \<Rightarrow> list_Response list" where
  "emitted [] = []"
| "emitted (Encode v # evs) = v # emitted evs"
| "emitted (e # evs) = emitted evs"

subsection \<open>An example environment\<close>

text \<open>
  One concrete choice of the collaborators, for evaluating the handlers: names follow the
  specification's rule for names (1 to 80 characters out of letters, digits, \<open>_\<close>, \<open>.\<close> and
  \<open>-\<close>), only the identity \<open>admin\<close> is authorized, a request body is written as the
  identity it names, the unknown identity is the empty string, and the policy \<open>rw\<close> can
  no longer be fetched.
\<close>

definition name_ok :: "string \<Rightarrow> bool" where
  "name_ok n =
     (1 \<le> length n \<and> length n \<le> 80 \<and>
      list_all (\<lambda>c. c \<in> set ''0123456789ABCDEFGHIJKLMNOPQRSTUVWXYZabcdefghijklmnopqrstuvwxyz_.-'') n)"

definition example_deps :: "string deps" where
  "example_deps =
     \<lparr>errMethodNotAllowed = NewError 405 ''Method Not Allowed'',
      normalizeURL = (\<lambda>p pre. Inr p),
      lookupEnclave = (\<lambda>r. Inr ''default''),
      VerifyRequest =
        (\<lambda>e r. if r_Identity r = ''admin'' then None
               else Some (NewError 403 ''not authorized: insufficient permissions'')),
      validateName = (\<lambda>n. if name_ok n then None else Some (NewError 400 ''invalid name'')),
      validatePattern =
        (\<lambda>n. if n = ''*'' \<or> name_ok n then None else Some (NewError 400 ''invalid pattern'')),
      TrimSpace = (\<lambda>s. s),
      Decode_Request =
        (\<lambda>n b. if n < length b then Inl (Failure ''http: request body too large'') else Inr b),
      IsUnknown = (\<lambda>i. i = []),
      Identify = r_Identity,
      AssignPolicy = (\<lambda>e name i. None),
      ListPolicies = (\<lambda>e. Inr ([''ro'', ''rw'', ''ops''], None)),
      GetPolicy =
        (\<lambda>e n. if n = ''rw'' then Inl (NewError 404 ''policy does not exist'')
               else Inr \<lparr>p_Allow = [], p_Deny = [], p_CreatedAt = 1, p_CreatedBy = ''admin''\<rparr>),
      Match = (\<lambda>pat n. pat = ''*'' \<or> pat = n),
      EncodeErr = (\<lambda>n v. None),
      err_Error =
        (\<lambda>e. case e of NewError c m \<Rightarrow> m | Failure m \<Rightarrow> m
              | ErrKeyExists \<Rightarrow> ''key already exists'' | ErrKeyNotFound \<Rightarrow> ''key does not exist'')\<rparr>"

text \<open>
  The same environment with a client whose connection breaks after the first value written,
  and with two policies listed whose metadata can be fetched.
\<close>

definition broken_pipe_deps :: "string deps" where
  "broken_pipe_deps =
     example_deps
       \<lparr>ListPolicies := (\<lambda>e. Inr ([''ro'', ''ops''], None)),
        EncodeErr := (\<lambda>n v. if n = 0 then None else Some (Failure ''write: broken pipe''))\<rparr>"

section \<open>Properties of the in-memory store\<close>

lemma Create_absent:
  "go_lookup (store s) name = None \<Longrightarrow>
   Create s name k =
     Some (s\<lparr>store := Some ((case store s of None \<Rightarrow> Map.empty | Some f \<Rightarrow> f)(name \<mapsto> k))\<rparr>, None)"
  by (cases "store s") (simp_all add: Create_def go_lookup_def go_assign_def)

lemma Create_present:
  "go_lookup (store s) name = Some k' \<Longrightarrow> Create s name k = Some (s, Some ErrKeyExists)"
  by (cases "store s") (simp_all add: Create_def go_lookup_def)

lemma Get_eq_lookup:
  "Get s name = (case go_lookup (store s) name of None \<Rightarrow> Inl ErrKeyNotFound | Some k \<Rightarrow> Inr k)"
  by (simp add: Get_def)

text \<open>
  C4. For every store, name and key: if the store has no entry for the name, \<open>Create\<close>
  returns no error, the key is then stored under the name and every other name reads as
  before; if the store has an entry, \<open>Create\<close> returns \<open>ErrKeyExists\<close> and the store is
  the one it was. So \<open>Create\<close> returns no error exactly when the name was absent, and it
  never panics.
\<close>

theorem Create_iff_absent:
  "(go_lookup (store s) name = None \<longrightarrow>
      (\<exists>s'. Create s name k = Some (s', None) \<and> Get s' name = Inr k \<and>
            (\<forall>n. n \<noteq> name \<longrightarrow> Get s' n = Get s n))) \<and>
   (go_lookup (store s) name \<noteq> None \<longrightarrow> Create s name k = Some (s, Some ErrKeyExists)) \<and>
   ((\<exists>s'. Create s name k = Some (s', None)) = (go_lookup (store s) name = None))"
proof (cases "go_lookup (store s) name")
  case None
  let ?s' = "s\<lparr>store := Some ((case store s of None \<Rightarrow> Map.empty | Some f \<Rightarrow> f)(name \<mapsto> k))\<rparr>"
  have c: "Create s name k = Some (?s', None)"
    using None by (rule Create_absent)
  have g: "Get ?s' name = Inr k"
    by (simp add: Get_def go_lookup_def)
  have o: "\<forall>n. n \<noteq> name \<longrightarrow> Get ?s' n = Get s n"
    by (cases "store s") (simp_all add: Get_def go_lookup_def)
  from c g o None show ?thesis by simp
next
  case (Some k')
  then have "Create s name k = Some (s, Some ErrKeyExists)"
    by (rule Create_present)
  with Some show ?thesis by simp
qed

theorem Create_iff_absent_witness:
  "go_lookup (store \<lparr>store = Some [''a'' \<mapsto> (1::nat)]\<rparr>) ''b'' = None \<and>
   (\<exists>s'. Create \<lparr>store = Some [''a'' \<mapsto> (1::nat)]\<rparr> ''b'' 2 = Some (s', None) \<and> Get s' ''b'' = Inr 2) \<and>
   go_lookup (store \<lparr>store = Some [''a'' \<mapsto> (1::nat)]\<rparr>) ''a'' \<noteq> None \<and>
   Create \<lparr>store = Some [''a'' \<mapsto> (1::nat)]\<rparr> ''a'' 2 =
     Some (\<lparr>store = Some [''a'' \<mapsto> 1]\<rparr>, Some ErrKeyExists)"
proof -
  have a: "go_lookup (store \<lparr>store = Some [''a'' \<mapsto> (1::nat)]\<rparr>) ''b'' = None"
    by (simp add: go_lookup_def)
  have b: "go_lookup (store \<lparr>store = Some [''a'' \<mapsto> (1::nat)]\<rparr>) ''a'' \<noteq> None"
    by (simp add: go_lookup_def)
  from a b
    Create_iff_absent [of "\<lparr>store = Some [''a'' \<mapsto> (1::nat)]\<rparr>" "''b''" 2]
    Create_iff_absent [of "\<lparr>store = Some [''a'' \<mapsto> (1::nat)]\<rparr>" "''a''" 2]
  show ?thesis by blast
qed

lemma Create_total: "\<exists>s' e. Create s name k = Some (s', e)"
proof (cases "go_lookup (store s) name")
  case None
  then show ?thesis by (simp add: Create_absent)
next
  case (Some k')
  then show ?thesis by (simp add: Create_present)
qed

text \<open>
  C6. For every store and name, \<open>Delete\<close> returns no error; in the store it leaves,
  \<open>Get\<close> of the name fails with \<open>ErrKeyNotFound\<close>; and a second \<open>Delete\<close> of the name
  returns no error again and leaves that store as it is.
\<close>

theorem Delete_idempotent:
  "snd (Delete s name) = None \<and>
   Get (fst (Delete s name)) name = Inl ErrKeyNotFound \<and>
   Delete (fst (Delete s name)) name = (fst (Delete s name), None)"
  by (cases "store s") (simp_all add: Delete_def Get_def go_delete_def go_lookup_def)

text \<open>
  C9. On the zero value of \<open>Store\<close> (the map is nil): \<open>Status\<close> reports
  \<open>StoreAvailable\<close> with latency 0 and no error, \<open>Get\<close> fails with \<open>ErrKeyNotFound\<close>,
  \<open>Delete\<close> returns no error and leaves the zero value, the only order the loop of
  \<open>List_keys\<close> can take is the empty one and its iterator is empty (\<open>Next\<close> returns false
  at once), and \<open>Create\<close> does not panic: it makes the map and stores the key.
\<close>

theorem zero_Store_total:
  "Status (zero_Store :: 'k Store) = (\<lparr>State = StoreAvailable, Latency = 0\<rparr>, None) \<and>
   Get (zero_Store :: 'k Store) name = Inl ErrKeyNotFound \<and>
   Delete (zero_Store :: 'k Store) name = (zero_Store, None) \<and>
   range_order (store (zero_Store :: 'k Store)) ord = (ord = []) \<and>
   List_keys (zero_Store :: 'k Store) [] = (\<lparr>it_values = [], it_last = []\<rparr>, None) \<and>
   Next (fst (List_keys (zero_Store :: 'k Store) [])) =
     (False, fst (List_keys (zero_Store :: 'k Store) [])) \<and>
   Err (fst (List_keys (zero_Store :: 'k Store) [])) = None \<and>
   Create (zero_Store :: 'k Store) name k = Some (\<lparr>store = Some [name \<mapsto> k]\<rparr>, None)"
proof -
  have "range_order (store (zero_Store :: 'k Store)) ord = (ord = [])"
    by (auto simp: range_order_def go_keys_def zero_Store_def)
  moreover have "Create (zero_Store :: 'k Store) name k = Some (\<lparr>store = Some [name \<mapsto> k]\<rparr>, None)"
    by (simp add: Create_def zero_Store_def go_lookup_def go_assign_def)
  moreover have "Delete (zero_Store :: 'k Store) name = (zero_Store, None)"
    by (simp add: Delete_def zero_Store_def go_delete_def)
  ultimately show ?thesis
    by (simp add: Status_def Get_def go_lookup_def zero_Store_def List_keys_def Next_def Err_def)
qed

lemma append_names_eq: "append_names names ord = names @ ord"
  by (induction ord arbitrary: names) simp_all

lemma drain_eq: "fst (drain i acc) = acc @ it_values i \<and> it_values (snd (drain i acc)) = []"
proof (induction "it_values i" arbitrary: i acc)
  case Nil
  then show ?case by (simp add: Next_def)
next
  case (Cons v vs)
  from Cons(2) have n: "Next i = (True, i\<lparr>it_last := v, it_values := vs\<rparr>)"
    by (simp add: Next_def [of i] flip: Cons(2))
  have "vs = it_values (i\<lparr>it_last := v, it_values := vs\<rparr>)" by simp
  from Cons(1) [OF this] n Cons(2) [symmetric] show ?case
    by (simp add: Name_def)
qed

lemma Next_exhausted: "it_values j = [] \<Longrightarrow> Next j = (False, j)"
  by (simp add: Next_def)

lemma Next_forever: "it_values j = [] \<Longrightarrow> ((\<lambda>j. snd (Next j)) ^^ n) j = j"
  by (induction n) (simp_all add: Next_exhausted)

lemma play_eq: "play s i acts = take (nexts acts) (it_values i)"
proof (induction acts arbitrary: s i)
  case Nil
  then show ?case by simp
next
  case (Cons a acts)
  show ?case
  proof (cases a)
    case (ACreate n k)
    obtain s' e where "Create s n k = Some (s', e)"
      using Create_total [of s n k] by blast
    with ACreate Cons show ?thesis by simp
  next
    case (ADelete n)
    with Cons show ?thesis by simp
  next
    case ANext
    show ?thesis
    proof (cases "it_values i")
      case Nil
      with ANext Cons show ?thesis by (simp add: Next_def)
    next
      case (Cons v vs)
      with ANext Cons.IH [of s "i\<lparr>it_last := v, it_values := vs\<rparr>"] show ?thesis
        by (simp add: Next_def Name_def)
    qed
  qed
qed

lemma run_snoc:
  "run s (ps @ [p]) =
     (case run s ps of
        None \<Rightarrow> None
      | Some (s', es) \<Rightarrow>
          (case exec s' p of None \<Rightarrow> None | Some (s'', e) \<Rightarrow> Some (s'', es @ [e])))"
  by (induction ps arbitrary: s) (auto split: option.splits)

lemma run_length: "run s ps = Some (s', es) \<Longrightarrow> length es = length ps"
  by (induction ps arbitrary: s s' es) (auto split: option.splits)

lemma exec_total: "\<exists>s' e. exec s p = Some (s', e)"
  by (cases p) (simp_all add: Create_total Delete_def)

text \<open>
  C5. For every sequence of calls run from the zero value of \<open>Store\<close>: the sequence
  runs to its end (no call panics), and \<open>Get\<close> of a name in the store it leaves returns
  the key of the most recent \<open>Create\<close> of that name that returned no error and has no
  \<open>Delete\<close> of the name after it; when there is none, it fails with \<open>ErrKeyNotFound\<close>.
\<close>

theorem Get_after_run:
  "\<exists>s' es. run zero_Store ps = Some (s', es) \<and> length es = length ps \<and>
     Get s' name =
       (case most_recent_create name (rev (zip ps es)) of
          Some k \<Rightarrow> Inr k
        | None \<Rightarrow> Inl ErrKeyNotFound)"
proof (induction ps rule: rev_induct)
  case Nil
  then show ?case by (simp add: Get_def go_lookup_def zero_Store_def)
next
  case (snoc p ps)
  then obtain s' es where r: "run zero_Store ps = Some (s', es)" and l: "length es = length ps"
    and g: "Get s' name = (case most_recent_create name (rev (zip ps es)) of
          Some k \<Rightarrow> Inr k | None \<Rightarrow> Inl ErrKeyNotFound)"
    by blast
  obtain s'' e where x: "exec s' p = Some (s'', e)"
    using exec_total [of s' p] by blast
  have z: "rev (zip (ps @ [p]) (es @ [e])) = (p, e) # rev (zip ps es)"
    using l by simp
  have "Get s'' name = (case most_recent_create name ((p, e) # rev (zip ps es)) of
          Some k \<Rightarrow> Inr k | None \<Rightarrow> Inl ErrKeyNotFound)"
  proof (cases p)
    case OpStatus
    with x g show ?thesis by (cases e) auto
  next
    case (OpCreate n k)
    show ?thesis
    proof (cases "go_lookup (store s') n")
      case None
      with x OpCreate have "s'' = s'\<lparr>store := Some ((case store s' of None \<Rightarrow> Map.empty | Some f \<Rightarrow> f)(n \<mapsto> k))\<rparr>" "e = None"
        by (simp_all add: Create_absent)
      with OpCreate g show ?thesis
        by (cases "store s'") (auto simp: Get_def go_lookup_def)
    next
      case (Some k')
      with x OpCreate have "s'' = s'" "e = Some ErrKeyExists"
        by (simp_all add: Create_present)
      with OpCreate g show ?thesis by simp
    qed
  next
    case (OpDelete n)
    with x g show ?thesis
      by (cases "store s'") (auto simp: Delete_def Get_def go_delete_def go_lookup_def)
  next
    case (OpGet n)
    with x g show ?thesis by (cases e) auto
  next
    case (OpList ord)
    with x g show ?thesis by (cases e) auto
  qed
  with r l x z show ?case
    by (simp add: run_snoc)
qed

theorem Get_after_run_witness:
  "run (zero_Store :: nat Store)
     [OpCreate ''a'' 1, OpCreate ''a'' 2, OpDelete ''b'', OpCreate ''b'' 3, OpDelete ''a'', OpCreate ''a'' 4] =
     Some (\<lparr>store = Some [''b'' \<mapsto> 3, ''a'' \<mapsto> 4]\<rparr>, [None, Some ErrKeyExists, None, None, None, None]) \<and>
   Get \<lparr>store = Some [''b'' \<mapsto> 3, ''a'' \<mapsto> (4::nat)]\<rparr> ''a'' = Inr 4"
proof -
  have r: "run (zero_Store :: nat Store)
     [OpCreate ''a'' 1, OpCreate ''a'' 2, OpDelete ''b'', OpCreate ''b'' 3, OpDelete ''a'', OpCreate ''a'' 4] =
     Some (\<lparr>store = Some [''b'' \<mapsto> 3, ''a'' \<mapsto> 4]\<rparr>, [None, Some ErrKeyExists, None, None, None, None])"
    by (simp add: zero_Store_def Create_def Delete_def go_lookup_def go_assign_def go_delete_def
        fun_upd_twist)
  from r Get_after_run [of "[OpCreate ''a'' 1, OpCreate ''a'' 2, OpDelete ''b'', OpCreate ''b'' 3,
      OpDelete ''a'', OpCreate ''a'' (4::nat)]" "''a''"]
  show ?thesis by simp
qed

text \<open>
  C10. For every store and every order the loop of \<open>List_keys\<close> may take over its map:
  \<open>List_keys\<close> returns no error; the names its iterator yields are the names in the store
  at the call, each once; once they are yielded, \<open>Next\<close> returns false however often it
  is called; \<open>Err\<close> of any iterator is nil; and whatever \<open>Create\<close> and \<open>Delete\<close> calls
  on a store come between the calls of \<open>Next\<close>, the names yielded are the first names of
  that same list, one for every call of \<open>Next\<close>.
\<close>

theorem List_snapshot:
  assumes "range_order (store s) ord"
  shows "snd (List_keys s ord) = None \<and>
    distinct (fst (drain (fst (List_keys s ord)) [])) \<and>
    set (fst (drain (fst (List_keys s ord)) [])) = go_keys (store s) \<and>
    (\<forall>n. fst (Next (((\<lambda>j. snd (Next j)) ^^ n) (snd (drain (fst (List_keys s ord)) [])))) = False) \<and>
    (\<forall>j. Err j = None) \<and>
    (\<forall>s' acts. play s' (fst (List_keys s ord)) acts =
       take (nexts acts) (fst (drain (fst (List_keys s ord)) [])))"
proof -
  let ?it = "fst (List_keys s ord)"
  have v: "it_values ?it = ord"
    by (simp add: List_keys_def append_names_eq)
  have d: "fst (drain ?it []) = ord"
    using drain_eq [of ?it "[]"] v by simp
  have e: "it_values (snd (drain ?it [])) = []"
    using drain_eq [of ?it "[]"] by simp
  have f: "\<forall>n. fst (Next (((\<lambda>j. snd (Next j)) ^^ n) (snd (drain ?it [])))) = False"
    using e by (simp add: Next_forever Next_exhausted)
  have p: "\<forall>s' acts. play s' ?it acts = take (nexts acts) (fst (drain ?it []))"
    using d v by (simp add: play_eq)
  have "distinct ord" and "set ord = go_keys (store s)"
    using assms by (simp_all add: range_order_def)
  with d f p show ?thesis
    by (simp add: List_keys_def Err_def)
qed

theorem List_snapshot_witness:
  "range_order (store \<lparr>store = Some [''a'' \<mapsto> (1::nat), ''b'' \<mapsto> 2]\<rparr>) [''b'', ''a''] \<and>
   fst (drain (fst (List_keys \<lparr>store = Some [''a'' \<mapsto> (1::nat), ''b'' \<mapsto> 2]\<rparr> [''b'', ''a''])) []) =
     [''b'', ''a''] \<and>
   play \<lparr>store = Some [''a'' \<mapsto> (1::nat), ''b'' \<mapsto> 2]\<rparr>
     (fst (List_keys \<lparr>store = Some [''a'' \<mapsto> (1::nat), ''b'' \<mapsto> 2]\<rparr> [''b'', ''a'']))
     [ANext, ACreate ''c'' 3, ADelete ''a'', ANext, ANext] = [''b'', ''a'']"
proof -
  have h: "range_order (store \<lparr>store = Some [''a'' \<mapsto> (1::nat), ''b'' \<mapsto> 2]\<rparr>) [''b'', ''a'']"
    by (simp add: range_order_def go_keys_def)
  have d: "fst (drain (fst (List_keys \<lparr>store = Some [''a'' \<mapsto> (1::nat), ''b'' \<mapsto> 2]\<rparr> [''b'', ''a''])) []) =
     [''b'', ''a'']"
    by (simp add: List_keys_def Next_def Name_def)
  have n: "take (nexts [ANext, ACreate ''c'' (3::nat), ADelete ''a'', ANext, ANext]) [''b'', ''a''] =
      [''b'', ''a'']"
    by simp
  have p: "play \<lparr>store = Some [''a'' \<mapsto> (1::nat), ''b'' \<mapsto> 2]\<rparr>
     (fst (List_keys \<lparr>store = Some [''a'' \<mapsto> (1::nat), ''b'' \<mapsto> 2]\<rparr> [''b'', ''a'']))
     [ANext, ACreate ''c'' 3, ADelete ''a'', ANext, ANext] =
     take (nexts [ANext, ACreate ''c'' (3::nat), ADelete ''a'', ANext, ANext])
       (fst (drain (fst (List_keys \<lparr>store = Some [''a'' \<mapsto> (1::nat), ''b'' \<mapsto> 2]\<rparr> [''b'', ''a''])) []))"
    using List_snapshot [OF h] by blast
  from h d p [unfolded d n] show ?thesis
    by blast
qed

section \<open>Properties of the policy API\<close>

subsection \<open>Routes and middleware\<close>

text \<open>
  C2. Of the six policy routes, \<open>describePolicy\<close> registers its handler without the
  \<open>proxy\<close> middleware; the five others have it. So a request to
  \<^verbatim>\<open>/v1/policy/describe/\<close> that a TLS proxy forwards reaches the handler with the proxy's
  own identity, where the same request to \<^verbatim>\<open>/v1/policy/read/\<close> reaches it with the
  identity of the forwarded certificate.
\<close>

theorem describePolicy_skips_proxy:
  "map (\<lambda>R. unwraps (mux_handler R)) policy_routes = [False, True, True, True, True, True] \<and>
   handler_request {''proxy''} (mux_handler describePolicy)
     \<lparr>r_Method = ''GET'', r_Path = ''/v1/policy/describe/ops'', r_Body = [],
      r_Identity = ''proxy'', r_Forwarded = Some ''client''\<rparr> =
     Inr \<lparr>r_Method = ''GET'', r_Path = ''/v1/policy/describe/ops'', r_Body = [],
      r_Identity = ''proxy'', r_Forwarded = Some ''client''\<rparr> \<and>
   handler_request {''proxy''} (mux_handler readPolicy)
     \<lparr>r_Method = ''GET'', r_Path = ''/v1/policy/read/ops'', r_Body = [],
      r_Identity = ''proxy'', r_Forwarded = Some ''client''\<rparr> =
     Inr \<lparr>r_Method = ''GET'', r_Path = ''/v1/policy/read/ops'', r_Body = [],
      r_Identity = ''client'', r_Forwarded = Some ''client''\<rparr>"
  by (simp add: policy_routes_def describePolicy_def assignPolicy_def readPolicy_def
      writePolicy_def deletePolicy_def listPolicy_def)

subsection \<open>assignPolicy\<close>

lemma assign_gates:
  assumes "r_Method r0 = ''POST''"
    and "normalizeURL d (r_Path r0) ''/v1/policy/assign/'' = Inr p"
    and "lookupEnclave d (r0\<lparr>r_Path := p\<rparr>) = Inr enclave"
    and "VerifyRequest d enclave (r0\<lparr>r_Path := p\<rparr>) = None"
    and "validateName d (TrimSpace d (TrimPrefix p ''/v1/policy/assign/'')) = None"
  shows "assignPolicy_handler d r0 =
    (case Decode_Request d 1024 (r_Body r0) of
       Inl err \<Rightarrow> [Error err]
     | Inr ident \<Rightarrow>
         if IsUnknown d ident then [Error (NewError 400 ''identity is unknown'')]
         else if Identify d (r0\<lparr>r_Path := p\<rparr>) = ident
         then [Error (NewError 403 ''identity cannot assign policy to itself'')]
         else
           (case AssignPolicy d enclave (TrimSpace d (TrimPrefix p ''/v1/policy/assign/'')) ident of
              Some err \<Rightarrow> [Call_AssignPolicy (TrimSpace d (TrimPrefix p ''/v1/policy/assign/'')) ident, Error err]
            | None \<Rightarrow> [Call_AssignPolicy (TrimSpace d (TrimPrefix p ''/v1/policy/assign/'')) ident, WriteHeader 200]))"
  using assms by (simp add: assignPolicy_handler_def assignPolicy_API_def Let_def)

lemma assign_calls:
  assumes "Call_AssignPolicy name i \<in> set (assignPolicy_handler d r0)"
  shows "\<exists>p. normalizeURL d (r_Path r0) ''/v1/policy/assign/'' = Inr p \<and>
       Decode_Request d 1024 (r_Body r0) = Inr i \<and>
       \<not> IsUnknown d i \<and> Identify d (r0\<lparr>r_Path := p\<rparr>) \<noteq> i"
proof (cases "r_Method r0 = ''POST''")
  case False
  with assms show ?thesis by (simp add: assignPolicy_handler_def assignPolicy_API_def Let_def)
next
  case m: True
  show ?thesis
  proof (cases "normalizeURL d (r_Path r0) ''/v1/policy/assign/''")
    case (Inl err)
    with assms m show ?thesis by (simp add: assignPolicy_handler_def assignPolicy_API_def Let_def)
  next
    case u: (Inr p)
    show ?thesis
    proof (cases "lookupEnclave d (r0\<lparr>r_Path := p\<rparr>)")
      case (Inl err)
      with assms m u show ?thesis by (simp add: assignPolicy_handler_def assignPolicy_API_def Let_def)
    next
      case l: (Inr enclave)
      show ?thesis
      proof (cases "VerifyRequest d enclave (r0\<lparr>r_Path := p\<rparr>)")
        case (Some err)
        with assms m u l show ?thesis by (simp add: assignPolicy_handler_def assignPolicy_API_def Let_def)
      next
        case v: None
        show ?thesis
        proof (cases "validateName d (TrimSpace d (TrimPrefix p ''/v1/policy/assign/''))")
          case (Some err)
          with assms m u l v show ?thesis by (simp add: assignPolicy_handler_def assignPolicy_API_def Let_def)
        next
          case n: None
          from assms show ?thesis
            unfolding assign_gates [OF m u l v n] using u
            by (auto split: sum.splits if_splits option.splits)
        qed
      qed
    qed
  qed
qed

lemma assign_shape:
  "(\<exists>e. assignPolicy_handler d r0 = [SetHeader ''Accept'' ''POST'', Error e]) \<or>
   (\<exists>e. assignPolicy_handler d r0 = [Error e]) \<or>
   (\<exists>n i e. assignPolicy_handler d r0 = [Call_AssignPolicy n i, Error e]) \<or>
   (\<exists>n i. assignPolicy_handler d r0 = [Call_AssignPolicy n i, WriteHeader 200])"
  by (simp add: assignPolicy_handler_def assignPolicy_API_def Let_def split: sum.split option.split)

lemma assign_rejected:
  assumes "\<forall>name i. Call_AssignPolicy name i \<notin> set (assignPolicy_handler d r0)"
  shows "\<exists>e. last (assignPolicy_handler d r0) = Error e"
  using assign_shape [of d r0] assms by auto

text \<open>
  C1 (amended). For every request to the assign-policy API that passes the method check,
  the URL normalisation, the enclave lookup, the authorization and the validation of the
  policy name, and whose body decodes to an identity that is not the unknown one: if the
  caller's identity equals that identity, the handler answers with the error 403
  "identity cannot assign policy to itself" and does nothing else. And for every request
  whatsoever: if the body decodes to the caller's identity, the handler does not call
  \<open>AssignPolicy\<close>.
\<close>

theorem assignPolicy_self_guard:
  "(r_Method r0 = ''POST'' \<and>
    normalizeURL d (r_Path r0) ''/v1/policy/assign/'' = Inr p \<and>
    lookupEnclave d (r0\<lparr>r_Path := p\<rparr>) = Inr enclave \<and>
    VerifyRequest d enclave (r0\<lparr>r_Path := p\<rparr>) = None \<and>
    validateName d (TrimSpace d (TrimPrefix p ''/v1/policy/assign/'')) = None \<and>
    Decode_Request d 1024 (r_Body r0) = Inr ident \<and>
    \<not> IsUnknown d ident \<and>
    Identify d (r0\<lparr>r_Path := p\<rparr>) = ident \<longrightarrow>
      assignPolicy_handler d r0 = [Error (NewError 403 ''identity cannot assign policy to itself'')]) \<and>
   (Decode_Request d 1024 (r_Body r0) = Inr ident \<and>
    (\<forall>q. normalizeURL d (r_Path r0) ''/v1/policy/assign/'' = Inr q \<longrightarrow>
         Identify d (r0\<lparr>r_Path := q\<rparr>) = ident) \<longrightarrow>
      (\<forall>name i. Call_AssignPolicy name i \<notin> set (assignPolicy_handler d r0)))"
proof (intro conjI impI)
  assume "r_Method r0 = ''POST'' \<and>
    normalizeURL d (r_Path r0) ''/v1/policy/assign/'' = Inr p \<and>
    lookupEnclave d (r0\<lparr>r_Path := p\<rparr>) = Inr enclave \<and>
    VerifyRequest d enclave (r0\<lparr>r_Path := p\<rparr>) = None \<and>
    validateName d (TrimSpace d (TrimPrefix p ''/v1/policy/assign/'')) = None \<and>
    Decode_Request d 1024 (r_Body r0) = Inr ident \<and>
    \<not> IsUnknown d ident \<and>
    Identify d (r0\<lparr>r_Path := p\<rparr>) = ident"
  then have g: "assignPolicy_handler d r0 =
      (case Decode_Request d 1024 (r_Body r0) of
         Inl err \<Rightarrow> [Error err]
       | Inr ident \<Rightarrow>
           if IsUnknown d ident then [Error (NewError 400 ''identity is unknown'')]
           else if Identify d (r0\<lparr>r_Path := p\<rparr>) = ident
           then [Error (NewError 403 ''identity cannot assign policy to itself'')]
           else
             (case AssignPolicy d enclave (TrimSpace d (TrimPrefix p ''/v1/policy/assign/'')) ident of
                Some err \<Rightarrow> [Call_AssignPolicy (TrimSpace d (TrimPrefix p ''/v1/policy/assign/'')) ident, Error err]
              | None \<Rightarrow> [Call_AssignPolicy (TrimSpace d (TrimPrefix p ''/v1/policy/assign/'')) ident, WriteHeader 200]))"
    and b: "Decode_Request d 1024 (r_Body r0) = Inr ident" "\<not> IsUnknown d ident"
      "Identify d (r0\<lparr>r_Path := p\<rparr>) = ident"
    by (simp_all add: assign_gates)
  show "assignPolicy_handler d r0 = [Error (NewError 403 ''identity cannot assign policy to itself'')]"
    unfolding g using b by simp
next
  assume a: "Decode_Request d 1024 (r_Body r0) = Inr ident \<and>
    (\<forall>q. normalizeURL d (r_Path r0) ''/v1/policy/assign/'' = Inr q \<longrightarrow>
         Identify d (r0\<lparr>r_Path := q\<rparr>) = ident)"
  show "\<forall>name i. Call_AssignPolicy name i \<notin> set (assignPolicy_handler d r0)"
  proof (intro allI notI)
    fix name i
    assume "Call_AssignPolicy name i \<in> set (assignPolicy_handler d r0)"
    from assign_calls [OF this] a show False by auto
  qed
qed

theorem assignPolicy_self_guard_witness:
  "r_Method \<lparr>r_Method = ''POST'', r_Path = ''/v1/policy/assign/ops'', r_Body = ''admin'',
      r_Identity = ''admin'', r_Forwarded = None\<rparr> = ''POST'' \<and>
   Decode_Request example_deps 1024 ''admin'' = Inr ''admin'' \<and>
   \<not> IsUnknown example_deps ''admin'' \<and>
   assignPolicy_handler example_deps
     \<lparr>r_Method = ''POST'', r_Path = ''/v1/policy/assign/ops'', r_Body = ''admin'',
      r_Identity = ''admin'', r_Forwarded = None\<rparr> =
     [Error (NewError 403 ''identity cannot assign policy to itself'')] \<and>
   (\<forall>name i. Call_AssignPolicy name i \<notin> set (assignPolicy_handler example_deps
     \<lparr>r_Method = ''POST'', r_Path = ''/v1/policy/assign/ops'', r_Body = ''admin'',
      r_Identity = ''admin'', r_Forwarded = None\<rparr>))"
  using assignPolicy_self_guard [of
      "\<lparr>r_Method = ''POST'', r_Path = ''/v1/policy/assign/ops'', r_Body = ''admin'',
        r_Identity = ''admin'', r_Forwarded = None\<rparr>"
      example_deps "''/v1/policy/assign/ops''" "''default''" "''admin''"]
  by (simp add: example_deps_def TrimPrefix_def name_ok_def)

theorem assignPolicy_self_guard_counterexample:
  "Decode_Request example_deps 1024 ''admin'' = Inr ''admin'' \<and>
   Identify example_deps
     \<lparr>r_Method = ''GET'', r_Path = ''/v1/policy/assign/ops'', r_Body = ''admin'',
      r_Identity = ''admin'', r_Forwarded = None\<rparr> = ''admin'' \<and>
   assignPolicy_handler example_deps
     \<lparr>r_Method = ''GET'', r_Path = ''/v1/policy/assign/ops'', r_Body = ''admin'',
      r_Identity = ''admin'', r_Forwarded = None\<rparr> =
     [SetHeader ''Accept'' ''POST'', Error (NewError 405 ''Method Not Allowed'')] \<and>
   Error (NewError 403 ''identity cannot assign policy to itself'') \<notin>
     set (assignPolicy_handler example_deps
       \<lparr>r_Method = ''GET'', r_Path = ''/v1/policy/assign/ops'', r_Body = ''admin'',
        r_Identity = ''admin'', r_Forwarded = None\<rparr>) \<and>
   Identify example_deps
     \<lparr>r_Method = ''POST'', r_Path = ''/v1/policy/assign/a*b'', r_Body = ''admin'',
      r_Identity = ''admin'', r_Forwarded = None\<rparr> = ''admin'' \<and>
   assignPolicy_handler example_deps
     \<lparr>r_Method = ''POST'', r_Path = ''/v1/policy/assign/a*b'', r_Body = ''admin'',
      r_Identity = ''admin'', r_Forwarded = None\<rparr> =
     [Error (NewError 400 ''invalid name'')]"
  by (simp add: assignPolicy_handler_def assignPolicy_API_def example_deps_def TrimPrefix_def
      name_ok_def)

text \<open>
  C8 (amended). For every assign-policy request that passes the method check, the URL
  normalisation, the enclave lookup, the authorization and the validation of the policy
  name, and whose body decodes to the unknown identity, the handler answers with the error
  400 "identity is unknown" and does nothing else. And for every request whose body decodes
  to the unknown identity, the handler does not call \<open>AssignPolicy\<close> and the last thing
  it does is to send an error.
\<close>

theorem assignPolicy_unknown_identity:
  "(r_Method r0 = ''POST'' \<and>
    normalizeURL d (r_Path r0) ''/v1/policy/assign/'' = Inr p \<and>
    lookupEnclave d (r0\<lparr>r_Path := p\<rparr>) = Inr enclave \<and>
    VerifyRequest d enclave (r0\<lparr>r_Path := p\<rparr>) = None \<and>
    validateName d (TrimSpace d (TrimPrefix p ''/v1/policy/assign/'')) = None \<and>
    Decode_Request d 1024 (r_Body r0) = Inr ident \<and>
    IsUnknown d ident \<longrightarrow>
      assignPolicy_handler d r0 = [Error (NewError 400 ''identity is unknown'')]) \<and>
   (Decode_Request d 1024 (r_Body r0) = Inr ident \<and> IsUnknown d ident \<longrightarrow>
      (\<forall>name i. Call_AssignPolicy name i \<notin> set (assignPolicy_handler d r0)) \<and>
      (\<exists>e. last (assignPolicy_handler d r0) = Error e))"
proof (intro conjI impI)
  assume "r_Method r0 = ''POST'' \<and>
    normalizeURL d (r_Path r0) ''/v1/policy/assign/'' = Inr p \<and>
    lookupEnclave d (r0\<lparr>r_Path := p\<rparr>) = Inr enclave \<and>
    VerifyRequest d enclave (r0\<lparr>r_Path := p\<rparr>) = None \<and>
    validateName d (TrimSpace d (TrimPrefix p ''/v1/policy/assign/'')) = None \<and>
    Decode_Request d 1024 (r_Body r0) = Inr ident \<and>
    IsUnknown d ident"
  then have g: "assignPolicy_handler d r0 =
      (case Decode_Request d 1024 (r_Body r0) of
         Inl err \<Rightarrow> [Error err]
       | Inr ident \<Rightarrow>
           if IsUnknown d ident then [Error (NewError 400 ''identity is unknown'')]
           else if Identify d (r0\<lparr>r_Path := p\<rparr>) = ident
           then [Error (NewError 403 ''identity cannot assign policy to itself'')]
           else
             (case AssignPolicy d enclave (TrimSpace d (TrimPrefix p ''/v1/policy/assign/'')) ident of
                Some err \<Rightarrow> [Call_AssignPolicy (TrimSpace d (TrimPrefix p ''/v1/policy/assign/'')) ident, Error err]
              | None \<Rightarrow> [Call_AssignPolicy (TrimSpace d (TrimPrefix p ''/v1/policy/assign/'')) ident, WriteHeader 200]))"
    and b: "Decode_Request d 1024 (r_Body r0) = Inr ident" "IsUnknown d ident"
    by (simp_all add: assign_gates)
  show "assignPolicy_handler d r0 = [Error (NewError 400 ''identity is unknown'')]"
    unfolding g using b by simp
next
  assume a: "Decode_Request d 1024 (r_Body r0) = Inr ident \<and> IsUnknown d ident"
  show c: "\<forall>name i. Call_AssignPolicy name i \<notin> set (assignPolicy_handler d r0)"
  proof (intro allI notI)
    fix name i
    assume "Call_AssignPolicy name i \<in> set (assignPolicy_handler d r0)"
    from assign_calls [OF this] a show False by auto
  qed
  show "\<exists>e. last (assignPolicy_handler d r0) = Error e"
    using c by (rule assign_rejected)
qed

theorem assignPolicy_unknown_identity_witness:
  "Decode_Request example_deps 1024 [] = Inr [] \<and>
   IsUnknown example_deps [] \<and>
   VerifyRequest example_deps ''default''
     \<lparr>r_Method = ''POST'', r_Path = ''/v1/policy/assign/ops'', r_Body = [],
      r_Identity = ''admin'', r_Forwarded = None\<rparr> = None \<and>
   assignPolicy_handler example_deps
     \<lparr>r_Method = ''POST'', r_Path = ''/v1/policy/assign/ops'', r_Body = [],
      r_Identity = ''admin'', r_Forwarded = None\<rparr> =
     [Error (NewError 400 ''identity is unknown'')] \<and>
   (\<forall>name i. Call_AssignPolicy name i \<notin> set (assignPolicy_handler example_deps
     \<lparr>r_Method = ''POST'', r_Path = ''/v1/policy/assign/ops'', r_Body = [],
      r_Identity = ''admin'', r_Forwarded = None\<rparr>))"
  using assignPolicy_unknown_identity [of
      "\<lparr>r_Method = ''POST'', r_Path = ''/v1/policy/assign/ops'', r_Body = [],
        r_Identity = ''admin'', r_Forwarded = None\<rparr>"
      example_deps "''/v1/policy/assign/ops''" "''default''" "[]"]
  by (simp add: example_deps_def TrimPrefix_def name_ok_def)

theorem assignPolicy_unknown_identity_counterexample:
  "Decode_Request example_deps 1024
     (r_Body \<lparr>r_Method = ''POST'', r_Path = ''/v1/policy/assign/ops'', r_Body = [],
        r_Identity = ''c0ffee'', r_Forwarded = None\<rparr>) = Inr [] \<and>
   IsUnknown example_deps [] \<and>
   assignPolicy_handler example_deps
     \<lparr>r_Method = ''POST'', r_Path = ''/v1/policy/assign/ops'', r_Body = [],
      r_Identity = ''c0ffee'', r_Forwarded = None\<rparr> =
     [Error (NewError 403 ''not authorized: insufficient permissions'')] \<and>
   Error (NewError 400 ''identity is unknown'') \<notin>
     set (assignPolicy_handler example_deps
       \<lparr>r_Method = ''POST'', r_Path = ''/v1/policy/assign/ops'', r_Body = [],
        r_Identity = ''c0ffee'', r_Forwarded = None\<rparr>)"
  by (simp add: assignPolicy_handler_def assignPolicy_API_def example_deps_def TrimPrefix_def
      name_ok_def)

text \<open>
  C3 (amended). The operation that binds an identity to a policy is served at POST
  \<^verbatim>\<open>/v1/policy/assign/<policy>\<close>, with a maximum request body of 1 KiB (1024 bytes) and a
  timeout of 15 seconds: that is the API the route returns and the pattern it registers, and
  a POST request there that passes the checks, with a body (read up to 1024 bytes) naming a
  known identity other than the caller's, has the handler call \<open>AssignPolicy\<close> with the
  policy name taken from the path behind that prefix and answer 200 when the call succeeds.
\<close>

theorem assignPolicy_route:
  "api assignPolicy =
     \<lparr>Method = ''POST'', Path = ''/v1/policy/assign/'', MaxBody = 1024, Timeout = 15000000000\<rparr> \<and>
   mux_pattern assignPolicy = ''/v1/policy/assign/'' \<and>
   (r_Method r0 = ''POST'' \<and>
    normalizeURL d (r_Path r0) ''/v1/policy/assign/'' = Inr p \<and>
    lookupEnclave d (r0\<lparr>r_Path := p\<rparr>) = Inr enclave \<and>
    VerifyRequest d enclave (r0\<lparr>r_Path := p\<rparr>) = None \<and>
    validateName d (TrimSpace d (TrimPrefix p ''/v1/policy/assign/'')) = None \<and>
    Decode_Request d 1024 (r_Body r0) = Inr ident \<and>
    \<not> IsUnknown d ident \<and>
    Identify d (r0\<lparr>r_Path := p\<rparr>) \<noteq> ident \<and>
    AssignPolicy d enclave (TrimSpace d (TrimPrefix p ''/v1/policy/assign/'')) ident = None \<longrightarrow>
      assignPolicy_handler d r0 =
        [Call_AssignPolicy (TrimSpace d (TrimPrefix p ''/v1/policy/assign/'')) ident, WriteHeader 200])"
proof (intro conjI impI)
  show "api assignPolicy =
     \<lparr>Method = ''POST'', Path = ''/v1/policy/assign/'', MaxBody = 1024, Timeout = 15000000000\<rparr>"
    by (simp add: assignPolicy_def assignPolicy_API_def Second_def)
  show "mux_pattern assignPolicy = ''/v1/policy/assign/''"
    by (simp add: assignPolicy_def assignPolicy_API_def)
next
  assume "r_Method r0 = ''POST'' \<and>
    normalizeURL d (r_Path r0) ''/v1/policy/assign/'' = Inr p \<and>
    lookupEnclave d (r0\<lparr>r_Path := p\<rparr>) = Inr enclave \<and>
    VerifyRequest d enclave (r0\<lparr>r_Path := p\<rparr>) = None \<and>
    validateName d (TrimSpace d (TrimPrefix p ''/v1/policy/assign/'')) = None \<and>
    Decode_Request d 1024 (r_Body r0) = Inr ident \<and>
    \<not> IsUnknown d ident \<and>
    Identify d (r0\<lparr>r_Path := p\<rparr>) \<noteq> ident \<and>
    AssignPolicy d enclave (TrimSpace d (TrimPrefix p ''/v1/policy/assign/'')) ident = None"
  then show "assignPolicy_handler d r0 =
        [Call_AssignPolicy (TrimSpace d (TrimPrefix p ''/v1/policy/assign/'')) ident, WriteHeader 200]"
    by (simp add: assign_gates)
qed

theorem assignPolicy_route_witness:
  "VerifyRequest example_deps ''default''
     \<lparr>r_Method = ''POST'', r_Path = ''/v1/policy/assign/ops'', r_Body = ''c0ffee'',
      r_Identity = ''admin'', r_Forwarded = None\<rparr> = None \<and>
   Decode_Request example_deps 1024 ''c0ffee'' = Inr ''c0ffee'' \<and>
   assignPolicy_handler example_deps
     \<lparr>r_Method = ''POST'', r_Path = ''/v1/policy/assign/ops'', r_Body = ''c0ffee'',
      r_Identity = ''admin'', r_Forwarded = None\<rparr> =
     [Call_AssignPolicy ''ops'' ''c0ffee'', WriteHeader 200]"
  using assignPolicy_route [of
      "\<lparr>r_Method = ''POST'', r_Path = ''/v1/policy/assign/ops'', r_Body = ''c0ffee'',
        r_Identity = ''admin'', r_Forwarded = None\<rparr>"
      example_deps "''/v1/policy/assign/ops''" "''default''" "''c0ffee''"]
  by (simp add: example_deps_def TrimPrefix_def name_ok_def)

theorem assignPolicy_route_counterexample:
  "mux_pattern assignPolicy \<noteq> ''/v1/identity/assign/'' \<and>
   Path (api assignPolicy) \<noteq> ''/v1/identity/assign/'' \<and>
   ''/v1/identity/assign/'' \<notin> set (map mux_pattern policy_routes)"
  by (simp add: policy_routes_def describePolicy_def assignPolicy_def readPolicy_def
      writePolicy_def deletePolicy_def listPolicy_def describePolicy_API_def assignPolicy_API_def
      readPolicy_API_def writePolicy_API_def deletePolicy_API_def listPolicy_API_def)

subsection \<open>listPolicy\<close>

lemma list_loop_all:
  assumes "\<forall>n v. EncodeErr d n v = None"
    and "\<forall>x\<in>set names. Match d pat x \<longrightarrow> (\<exists>pol. GetPolicy d e x = Inr pol)"
  shows "list_loop d e pat names n hw =
    (map (\<lambda>x. Encode (item x (projr (GetPolicy d e x)))) (filter (Match d pat) names),
     Some (n + length (filter (Match d pat) names), hw \<or> filter (Match d pat) names \<noteq> []))"
  using assms(2)
proof (induction names arbitrary: n hw)
  case Nil
  then show ?case by simp
next
  case (Cons x xs)
  show ?case
  proof (cases "Match d pat x")
    case False
    with Cons show ?thesis by simp
  next
    case True
    with Cons.prems obtain pol where g: "GetPolicy d e x = Inr pol" by auto
    from Cons.prems have "\<forall>y\<in>set xs. Match d pat y \<longrightarrow> (\<exists>pol. GetPolicy d e y = Inr pol)"
      by simp
    from Cons.IH [OF this, of "Suc n" True] True g assms(1) show ?thesis
      by simp
  qed
qed

lemma list_loop_fails:
  assumes "\<forall>n v. EncodeErr d n v = None"
    and "\<forall>y\<in>set pre. Match d pat y \<longrightarrow> (\<exists>pol. GetPolicy d e y = Inr pol)"
    and "Match d pat x"
    and "GetPolicy d e x = Inl err"
  shows "list_loop d e pat (pre @ x # post) n hw =
    (map (\<lambda>y. Encode (item y (projr (GetPolicy d e y)))) (filter (Match d pat) pre) @
       [Encode (error_item d err)], None)"
  using assms(2)
proof (induction pre arbitrary: n hw)
  case Nil
  with assms show ?case by (simp add: encode_def)
next
  case (Cons y ys)
  show ?case
  proof (cases "Match d pat y")
    case False
    with Cons show ?thesis by simp
  next
    case True
    with Cons.prems obtain pol where g: "GetPolicy d e y = Inr pol" by auto
    from Cons.prems have "\<forall>z\<in>set ys. Match d pat z \<longrightarrow> (\<exists>pol. GetPolicy d e z = Inr pol)"
      by simp
    from Cons.IH [OF this, of "Suc n" True] True g assms(1) show ?thesis
      by simp
  qed
qed

lemma list_gates:
  assumes "r_Method r0 = ''GET''"
    and "normalizeURL d (r_Path r0) ''/v1/policy/list/'' = Inr p"
    and "lookupEnclave d (r0\<lparr>r_Path := p\<rparr>) = Inr enclave"
    and "VerifyRequest d enclave (r0\<lparr>r_Path := p\<rparr>) = None"
    and "pat = TrimSpace d (TrimPrefix p ''/v1/policy/list/'')"
    and "validatePattern d pat = None"
    and "ListPolicies d enclave = Inr (names, close_err)"
  shows "listPolicy_handler d r0 =
    SetHeader ''Content-Type'' ''application/x-ndjson'' #
      (case list_loop d enclave pat names 0 False of
         (evs, None) \<Rightarrow> evs
       | (evs, Some (n, hasWritten)) \<Rightarrow>
           (case close_err of
              Some err \<Rightarrow> evs @ [encode d n (error_item d err)]
            | None \<Rightarrow> if \<not> hasWritten then evs @ [WriteHeader 200] else evs))"
  using assms by (simp add: listPolicy_handler_def listPolicy_API_def Let_def)

text \<open>
  C7 (amended). For every authorized GET request to \<^verbatim>\<open>/v1/policy/list/<pattern>\<close> that
  passes the URL normalisation, the enclave lookup and the validation of the pattern, whose
  listing of the policies succeeds, and as long as every write to the response succeeds:
  if the metadata of every listed policy whose name matches the pattern can be fetched, the
  handler emits one value with name, created_at and created_by for each of them, in the
  order of the listing, then one error value if closing the iterator fails, and status 200
  if there was nothing to emit; and if fetching fails at a listed policy that matches, it
  emits the values of the matching policies before it, then a single error value, and that
  is the end of the stream.
\<close>

theorem listPolicy_stream:
  assumes "r_Method r0 = ''GET''"
    and "normalizeURL d (r_Path r0) ''/v1/policy/list/'' = Inr p"
    and "lookupEnclave d (r0\<lparr>r_Path := p\<rparr>) = Inr enclave"
    and "VerifyRequest d enclave (r0\<lparr>r_Path := p\<rparr>) = None"
    and "pat = TrimSpace d (TrimPrefix p ''/v1/policy/list/'')"
    and "validatePattern d pat = None"
    and "ListPolicies d enclave = Inr (names, close_err)"
    and "\<forall>n v. EncodeErr d n v = None"
  shows
   "((\<forall>x\<in>set names. Match d pat x \<longrightarrow> (\<exists>pol. GetPolicy d enclave x = Inr pol)) \<longrightarrow>
       listPolicy_handler d r0 =
         SetHeader ''Content-Type'' ''application/x-ndjson'' #
         map (\<lambda>x. Encode (item x (projr (GetPolicy d enclave x)))) (filter (Match d pat) names) @
         (case close_err of
            Some err \<Rightarrow> [Encode (error_item d err)]
          | None \<Rightarrow> if filter (Match d pat) names = [] then [WriteHeader 200] else [])) \<and>
    (\<forall>pre x post err.
       names = pre @ x # post \<and>
       (\<forall>y\<in>set pre. Match d pat y \<longrightarrow> (\<exists>pol. GetPolicy d enclave y = Inr pol)) \<and>
       Match d pat x \<and> GetPolicy d enclave x = Inl err \<longrightarrow>
         listPolicy_handler d r0 =
           SetHeader ''Content-Type'' ''application/x-ndjson'' #
           map (\<lambda>y. Encode (item y (projr (GetPolicy d enclave y)))) (filter (Match d pat) pre) @
           [Encode (error_item d err)])"
proof (intro conjI impI allI)
  assume ok: "\<forall>x\<in>set names. Match d pat x \<longrightarrow> (\<exists>pol. GetPolicy d enclave x = Inr pol)"
  show "listPolicy_handler d r0 =
         SetHeader ''Content-Type'' ''application/x-ndjson'' #
         map (\<lambda>x. Encode (item x (projr (GetPolicy d enclave x)))) (filter (Match d pat) names) @
         (case close_err of
            Some err \<Rightarrow> [Encode (error_item d err)]
          | None \<Rightarrow> if filter (Match d pat) names = [] then [WriteHeader 200] else [])"
    unfolding list_gates [OF assms(1-7)] list_loop_all [OF assms(8) ok]
    using assms(8) by (simp add: encode_def split: option.split)
next
  fix pre x post err
  assume a: "names = pre @ x # post \<and>
       (\<forall>y\<in>set pre. Match d pat y \<longrightarrow> (\<exists>pol. GetPolicy d enclave y = Inr pol)) \<and>
       Match d pat x \<and> GetPolicy d enclave x = Inl err"
  then have l: "list_loop d enclave pat names 0 False =
    (map (\<lambda>y. Encode (item y (projr (GetPolicy d enclave y)))) (filter (Match d pat) pre) @
       [Encode (error_item d err)], None)"
    using list_loop_fails [OF assms(8), of pre pat enclave x err post 0 False] by simp
  show "listPolicy_handler d r0 =
           SetHeader ''Content-Type'' ''application/x-ndjson'' #
           map (\<lambda>y. Encode (item y (projr (GetPolicy d enclave y)))) (filter (Match d pat) pre) @
           [Encode (error_item d err)]"
    unfolding list_gates [OF assms(1-7)] l by simp
qed

theorem listPolicy_stream_counterexample:
  "r_Method \<lparr>r_Method = ''GET'', r_Path = ''/v1/policy/list/*'', r_Body = [],
      r_Identity = ''admin'', r_Forwarded = None\<rparr> = ''GET'' \<and>
   VerifyRequest broken_pipe_deps ''default''
     \<lparr>r_Method = ''GET'', r_Path = ''/v1/policy/list/*'', r_Body = [],
      r_Identity = ''admin'', r_Forwarded = None\<rparr> = None \<and>
   ListPolicies broken_pipe_deps ''default'' = Inr ([''ro'', ''ops''], None) \<and>
   Match broken_pipe_deps ''*'' ''ops'' \<and>
   GetPolicy broken_pipe_deps ''default'' ''ops'' =
     Inr \<lparr>p_Allow = [], p_Deny = [], p_CreatedAt = 1, p_CreatedBy = ''admin''\<rparr> \<and>
   listPolicy_handler broken_pipe_deps
     \<lparr>r_Method = ''GET'', r_Path = ''/v1/policy/list/*'', r_Body = [],
      r_Identity = ''admin'', r_Forwarded = None\<rparr> =
     [SetHeader ''Content-Type'' ''application/x-ndjson'',
      Encode \<lparr>resp_Name = ''ro'', resp_CreatedAt = 1, resp_CreatedBy = ''admin'', resp_Err = []\<rparr>,
      Encode_failed \<lparr>resp_Name = ''ops'', resp_CreatedAt = 1, resp_CreatedBy = ''admin'', resp_Err = []\<rparr>] \<and>
   emitted (listPolicy_handler broken_pipe_deps
     \<lparr>r_Method = ''GET'', r_Path = ''/v1/policy/list/*'', r_Body = [],
      r_Identity = ''admin'', r_Forwarded = None\<rparr>) =
     [\<lparr>resp_Name = ''ro'', resp_CreatedAt = 1, resp_CreatedBy = ''admin'', resp_Err = []\<rparr>]"
  by (simp add: listPolicy_handler_def listPolicy_API_def example_deps_def TrimPrefix_def
      name_ok_def encode_def item_def error_item_def broken_pipe_deps_def)

theorem listPolicy_stream_witness:
  "(\<forall>n v. EncodeErr example_deps n v = None) \<and>
   VerifyRequest example_deps ''default''
     \<lparr>r_Method = ''GET'', r_Path = ''/v1/policy/list/*'', r_Body = [],
      r_Identity = ''admin'', r_Forwarded = None\<rparr> = None \<and>
   ListPolicies example_deps ''default'' = Inr ([''ro'', ''rw'', ''ops''], None) \<and>
   GetPolicy example_deps ''default'' ''rw'' = Inl (NewError 404 ''policy does not exist'') \<and>
   listPolicy_handler example_deps
     \<lparr>r_Method = ''GET'', r_Path = ''/v1/policy/list/*'', r_Body = [],
      r_Identity = ''admin'', r_Forwarded = None\<rparr> =
     [SetHeader ''Content-Type'' ''application/x-ndjson'',
      Encode \<lparr>resp_Name = ''ro'', resp_CreatedAt = 1, resp_CreatedBy = ''admin'', resp_Err = []\<rparr>,
      Encode \<lparr>resp_Name = [], resp_CreatedAt = 0, resp_CreatedBy = [],
        resp_Err = ''policy does not exist''\<rparr>] \<and>
   listPolicy_handler example_deps
     \<lparr>r_Method = ''GET'', r_Path = ''/v1/policy/list/ops'', r_Body = [],
      r_Identity = ''admin'', r_Forwarded = None\<rparr> =
     [SetHeader ''Content-Type'' ''application/x-ndjson'',
      Encode \<lparr>resp_Name = ''ops'', resp_CreatedAt = 1, resp_CreatedBy = ''admin'', resp_Err = []\<rparr>]"
proof -
  let ?star = "\<lparr>r_Method = ''GET'', r_Path = ''/v1/policy/list/*'', r_Body = [],
      r_Identity = ''admin'', r_Forwarded = None\<rparr>"
  let ?ops = "\<lparr>r_Method = ''GET'', r_Path = ''/v1/policy/list/ops'', r_Body = [],
      r_Identity = ''admin'', r_Forwarded = None\<rparr>"
  have w: "\<forall>n v. EncodeErr example_deps n v = None"
    by (simp add: example_deps_def)
  have l: "ListPolicies example_deps ''default'' = Inr ([''ro'', ''rw'', ''ops''], None)"
    by (simp add: example_deps_def)
  have g: "GetPolicy example_deps ''default'' ''rw'' = Inl (NewError 404 ''policy does not exist'')"
    by (simp add: example_deps_def)
  have m1: "r_Method ?star = ''GET''" and m2: "r_Method ?ops = ''GET''"
    by simp_all
  have u1: "normalizeURL example_deps (r_Path ?star) ''/v1/policy/list/'' = Inr ''/v1/policy/list/*''"
    and u2: "normalizeURL example_deps (r_Path ?ops) ''/v1/policy/list/'' = Inr ''/v1/policy/list/ops''"
    by (simp_all add: example_deps_def)
  have e1: "lookupEnclave example_deps (?star\<lparr>r_Path := ''/v1/policy/list/*''\<rparr>) = Inr ''default''"
    and e2: "lookupEnclave example_deps (?ops\<lparr>r_Path := ''/v1/policy/list/ops''\<rparr>) = Inr ''default''"
    by (simp_all add: example_deps_def)
  have v1: "VerifyRequest example_deps ''default'' (?star\<lparr>r_Path := ''/v1/policy/list/*''\<rparr>) = None"
    and v2: "VerifyRequest example_deps ''default'' (?ops\<lparr>r_Path := ''/v1/policy/list/ops''\<rparr>) = None"
    by (simp_all add: example_deps_def)
  have p1: "''*'' = TrimSpace example_deps (TrimPrefix ''/v1/policy/list/*'' ''/v1/policy/list/'')"
    and p2: "''ops'' = TrimSpace example_deps (TrimPrefix ''/v1/policy/list/ops'' ''/v1/policy/list/'')"
    by (simp_all add: example_deps_def TrimPrefix_def)
  have q1: "validatePattern example_deps ''*'' = None"
    and q2: "validatePattern example_deps ''ops'' = None"
    by (simp_all add: example_deps_def name_ok_def)
  have "listPolicy_handler example_deps ?star =
      SetHeader ''Content-Type'' ''application/x-ndjson'' #
      map (\<lambda>y. Encode (item y (projr (GetPolicy example_deps ''default'' y))))
        (filter (Match example_deps ''*'') [''ro'']) @
      [Encode (error_item example_deps (NewError 404 ''policy does not exist''))]"
    by (rule listPolicy_stream [OF m1 u1 e1 v1 p1 q1 l w, THEN conjunct2, rule_format,
          of "[''ro'']" "''rw''" "[''ops'']"])
       (simp add: example_deps_def)
  then have s: "listPolicy_handler example_deps ?star =
     [SetHeader ''Content-Type'' ''application/x-ndjson'',
      Encode \<lparr>resp_Name = ''ro'', resp_CreatedAt = 1, resp_CreatedBy = ''admin'', resp_Err = []\<rparr>,
      Encode \<lparr>resp_Name = [], resp_CreatedAt = 0, resp_CreatedBy = [],
        resp_Err = ''policy does not exist''\<rparr>]"
    by (simp add: example_deps_def item_def error_item_def)
  have "listPolicy_handler example_deps ?ops =
      SetHeader ''Content-Type'' ''application/x-ndjson'' #
      map (\<lambda>x. Encode (item x (projr (GetPolicy example_deps ''default'' x))))
        (filter (Match example_deps ''ops'') [''ro'', ''rw'', ''ops'']) @
      (case None of
         Some err \<Rightarrow> [Encode (error_item example_deps err)]
       | None \<Rightarrow> if filter (Match example_deps ''ops'') [''ro'', ''rw'', ''ops''] = []
                 then [WriteHeader 200] else [])"
    by (rule listPolicy_stream [OF m2 u2 e2 v2 p2 q2 l w, THEN conjunct1, rule_format])
       (simp add: example_deps_def)
  then have t: "listPolicy_handler example_deps ?ops =
     [SetHeader ''Content-Type'' ''application/x-ndjson'',
      Encode \<lparr>resp_Name = ''ops'', resp_CreatedAt = 1, resp_CreatedBy = ''admin'', resp_Err = []\<rparr>]"
    by (simp add: example_deps_def item_def)
  from w v1 l g s t show ?thesis
    by simp
qed

end
